theory Spec2Isabelle
  imports Complex_Main "HOL-Library.Sublist"
begin

section \<open>Python strings over the code points U+0000 .. U+00FF\<close>

text \<open>
  A Python \<open>str\<close> is a sequence of code points. The model takes a text to be a
  \<^typ>\<open>string\<close> whose characters are the code points 0 .. 255 (ISO 8859-1, the first
  256 code points of Unicode); this covers every character the source mentions
  (ASCII and the accented Spanish letters). The character classes below are those of
  CPython's Unicode database on that range.
\<close>

definition code :: "char \<Rightarrow> nat" where
  "code c = of_char c"

text \<open>\<open>\d\<close> of \<open>re\<close> on \<open>str\<close> patterns: the decimal digits.\<close>

definition is_digit :: "char \<Rightarrow> bool" where
  "is_digit c = (48 \<le> code c \<and> code c \<le> 57)"

text \<open>\<open>str.isalnum\<close>: letters, digits and the numeric characters of the range.\<close>

definition is_alnum :: "char \<Rightarrow> bool" where
  "is_alnum c = (let n = code c in
     (48 \<le> n \<and> n \<le> 57) \<or> (65 \<le> n \<and> n \<le> 90) \<or> (97 \<le> n \<and> n \<le> 122) \<or>
     n = 170 \<or> n = 178 \<or> n = 179 \<or> n = 181 \<or> n = 185 \<or> n = 186 \<or>
     (188 \<le> n \<and> n \<le> 190) \<or> (192 \<le> n \<and> n \<le> 214) \<or>
     (216 \<le> n \<and> n \<le> 246) \<or> 248 \<le> n)"

text \<open>\<open>\w\<close>: alphanumeric or underscore.\<close>

definition is_word :: "char \<Rightarrow> bool" where
  "is_word c = (is_alnum c \<or> c = CHR ''_'')"

text \<open>\<open>\s\<close> and the characters removed by \<open>str.strip()\<close>.\<close>

definition is_space :: "char \<Rightarrow> bool" where
  "is_space c = (let n = code c in
     (9 \<le> n \<and> n \<le> 13) \<or> (28 \<le> n \<and> n \<le> 32) \<or> n = 133 \<or> n = 160)"

text \<open>\<open>.\<close> without the DOTALL flag: any character except the line feed.\<close>

definition is_dot :: "char \<Rightarrow> bool" where
  "is_dot c = (code c \<noteq> 10)"

definition is_upper :: "char \<Rightarrow> bool" where
  "is_upper c = (let n = code c in
     (65 \<le> n \<and> n \<le> 90) \<or> (192 \<le> n \<and> n \<le> 222 \<and> n \<noteq> 215))"

definition lower_char :: "char \<Rightarrow> char" where
  "lower_char c = (if is_upper c then char_of (code c + 32) else c)"

text \<open>\<open>str.lower()\<close>: on this range every character lowers to one character.\<close>

definition lower :: "string \<Rightarrow> string" where
  "lower s = map lower_char s"

text \<open>\<open>str.strip()\<close> with no argument.\<close>

definition strip :: "string \<Rightarrow> string" where
  "strip s = rev (dropWhile is_space (rev (dropWhile is_space s)))"

text \<open>
  \<open>str.title()\<close>: a character that follows a cased character is lowered, any other is
  title-cased. The three letters of the range whose title-case form lies outside it
  (U+00B5, U+00DF, U+00FF) are kept as they are.
\<close>

definition is_cased :: "char \<Rightarrow> bool" where
  "is_cased c = (let n = code c in
     (65 \<le> n \<and> n \<le> 90) \<or> (97 \<le> n \<and> n \<le> 122) \<or> n = 170 \<or> n = 181 \<or> n = 186 \<or>
     (192 \<le> n \<and> n \<le> 214) \<or> (216 \<le> n \<and> n \<le> 246) \<or> 248 \<le> n)"

definition title_char :: "char \<Rightarrow> char" where
  "title_char c = (let n = code c in
     if (97 \<le> n \<and> n \<le> 122) \<or> (224 \<le> n \<and> n \<le> 254 \<and> n \<noteq> 247)
     then char_of (n - 32) else c)"

fun title_from :: "bool \<Rightarrow> string \<Rightarrow> string" where
  "title_from previous_is_cased [] = []"
| "title_from previous_is_cased (c # cs) =
     (if previous_is_cased then lower_char c else title_char c) # title_from (is_cased c) cs"

definition title :: "string \<Rightarrow> string" where
  "title s = title_from False s"

text \<open>\<open>p in t\<close> on strings: \<open>p\<close> occurs in \<open>t\<close> as a contiguous substring.\<close>

fun py_in :: "string \<Rightarrow> string \<Rightarrow> bool" where
  "py_in p [] = (p = [])"
| "py_in p (c # cs) = (prefix p (c # cs) \<or> py_in p cs)"

text \<open>\<open>t.split(" ")\<close>: the pieces between single blanks, empty pieces included.\<close>

fun split_sp :: "string \<Rightarrow> string list" where
  "split_sp [] = [[]]"
| "split_sp (c # cs) =
     (if c = CHR '' '' then [] # split_sp cs
      else (case split_sp cs of [] \<Rightarrow> [[c]] | w # ws \<Rightarrow> (c # w) # ws))"

text \<open>\<open>" ".join(tokens)\<close>.\<close>

fun join_sp :: "string list \<Rightarrow> string" where
  "join_sp [] = []"
| "join_sp [w] = w"
| "join_sp (w # ws) = w @ '' '' @ join_sp ws"

text \<open>
  \<open>int(s)\<close> on a string of decimal digits. CPython (3.11 and later) raises ValueError
  when the string has more than 4300 digits; that is the \<open>None\<close> here and the
  \<open>except ValueError\<close> branch of the source.
\<close>

definition digit_val :: "char \<Rightarrow> int" where
  "digit_val c = int (code c) - 48"

definition py_int :: "string \<Rightarrow> int option" where
  "py_int s = (if length s > 4300 then None
               else Some (foldl (\<lambda>a c. 10 * a + digit_val c) 0 s))"

text \<open>
  \<open>float(s)\<close> on a match of \<open>\d+(?:\.\d+)?\<close>. The value kept is the decimal number the
  text denotes, as a rational; Python rounds it to the nearest double, which changes
  nothing for the integers and short decimals of prices.
\<close>

definition py_float :: "string \<Rightarrow> rat" where
  "py_float s =
     (let ip = takeWhile is_digit s; fp = drop (Suc (length ip)) s
      in of_int (foldl (\<lambda>a c. 10 * a + digit_val c) 0 ip)
         + of_int (foldl (\<lambda>a c. 10 * a + digit_val c) 0 fp) / 10 ^ length fp)"

section \<open>The regular expressions of \<open>re\<close>\<close>

text \<open>
  The patterns of the source use literals, character classes, \<open>\b\<close>, sequence,
  ordered alternation, the greedy \<open>*\<close> \<open>+\<close> \<open>?\<close>, the lazy \<open>*?\<close> and one capturing
  group whose text is read back. A matcher state is the character before the current
  position (for \<open>\b\<close>), the text still to be read, and the text of group 1 so far.
  \<open>ms r st\<close> lists, in the order in which a backtracking matcher tries them, the states
  at which a match of \<open>r\<close> started in \<open>st\<close> can end.
\<close>

datatype rx =
    Chr char
  | Cls "char \<Rightarrow> bool"
  | Eps
  | Bnd
  | Seq rx rx
  | Alt rx rx
  | Star rx
  | Lazy rx
  | Grp rx

type_synonym mstate = "char option \<times> string \<times> string option"

definition is_word_opt :: "char option \<Rightarrow> bool" where
  "is_word_opt pv = (case pv of None \<Rightarrow> False | Some c \<Rightarrow> is_word c)"

text \<open>\<open>\b\<close>: exactly one of the characters on the two sides is a word character.\<close>

definition at_boundary :: "char option \<Rightarrow> string \<Rightarrow> bool" where
  "at_boundary pv s =
     (is_word_opt pv \<noteq> is_word_opt (case s of [] \<Rightarrow> None | c # _ \<Rightarrow> Some c))"

definition rest_len :: "mstate \<Rightarrow> nat" where
  "rest_len st = length (fst (snd st))"

function (sequential) ms :: "rx \<Rightarrow> mstate \<Rightarrow> mstate list" where
  "ms (Chr c) (pv, s, g) =
     (case s of [] \<Rightarrow> [] | x # xs \<Rightarrow> if x = c then [(Some x, xs, g)] else [])"
| "ms (Cls p) (pv, s, g) =
     (case s of [] \<Rightarrow> [] | x # xs \<Rightarrow> if p x then [(Some x, xs, g)] else [])"
| "ms Eps st = [st]"
| "ms Bnd (pv, s, g) = (if at_boundary pv s then [(pv, s, g)] else [])"
| "ms (Seq a b) st = concat (map (ms b) (ms a st))"
| "ms (Alt a b) st = ms a st @ ms b st"
| "ms (Star r) st =
     concat (map (\<lambda>st'. if rest_len st' < rest_len st then ms (Star r) st' else [])
                 (ms r st)) @ [st]"
| "ms (Lazy r) st =
     st # concat (map (\<lambda>st'. if rest_len st' < rest_len st then ms (Lazy r) st' else [])
                      (ms r st))"
| "ms (Grp r) (pv, s, g) =
     map (\<lambda>(pv', s', g'). (pv', s', Some (take (length s - length s') s))) (ms r (pv, s, g))"
  by pat_completeness auto
termination
  by (relation "measures [\<lambda>(r, st). size r, \<lambda>(r, st). rest_len st]") auto

text \<open>The derived forms.\<close>

definition Plus :: "rx \<Rightarrow> rx" where
  "Plus r = Seq r (Star r)"

definition Opt :: "rx \<Rightarrow> rx" where
  "Opt r = Alt r Eps"

fun lit :: "string \<Rightarrow> rx" where
  "lit [] = Eps"
| "lit (c # cs) = Seq (Chr c) (lit cs)"

fun alts :: "rx list \<Rightarrow> rx" where
  "alts [] = Cls (\<lambda>c. False)"
| "alts [r] = r"
| "alts (r # rs) = Alt r (alts rs)"

fun seqs :: "rx list \<Rightarrow> rx" where
  "seqs [] = Eps"
| "seqs [r] = r"
| "seqs (r # rs) = Seq r (seqs rs)"

text \<open>\<open>\b\<close> + \<open>re.escape(w)\<close> + \<open>\b\<close>: the literal \<open>w\<close> as a whole word.\<close>

definition word_rx :: "string \<Rightarrow> rx" where
  "word_rx w = Seq Bnd (Seq (lit w) Bnd)"

text \<open>The first way to match at the current position, if there is one.\<close>

definition first_match :: "rx \<Rightarrow> char option \<Rightarrow> string \<Rightarrow> mstate option" where
  "first_match r pv s = (case ms r (pv, s, None) of [] \<Rightarrow> None | m # _ \<Rightarrow> Some m)"

text \<open>\<open>re.search\<close>: the first match at the leftmost position that has one.\<close>

fun search_from :: "rx \<Rightarrow> char option \<Rightarrow> string \<Rightarrow> mstate option" where
  "search_from r pv [] = first_match r pv []"
| "search_from r pv (c # cs) =
     (case first_match r pv (c # cs) of
        Some m \<Rightarrow> Some m
      | None \<Rightarrow> search_from r (Some c) cs)"

definition re_search :: "rx \<Rightarrow> string \<Rightarrow> mstate option" where
  "re_search r t = search_from r None t"

text \<open>\<open>bool(re.search(...))\<close>.\<close>

definition re_test :: "rx \<Rightarrow> string \<Rightarrow> bool" where
  "re_test r t = (re_search r t \<noteq> None)"

text \<open>\<open>m.group(1)\<close>.\<close>

definition group1 :: "mstate \<Rightarrow> string" where
  "group1 m = (case snd (snd m) of None \<Rightarrow> [] | Some g \<Rightarrow> g)"

text \<open>
  \<open>re.sub(r, rep, t)\<close> with a literal replacement: the non-overlapping matches from left
  to right are replaced. Every pattern the source substitutes matches at least one
  character; a position with no such match keeps its character.
\<close>

function sub_from :: "rx \<Rightarrow> string \<Rightarrow> char option \<Rightarrow> string \<Rightarrow> string" where
  "sub_from r rep pv [] = []"
| "sub_from r rep pv (c # cs) =
     (case first_match r pv (c # cs) of
        None \<Rightarrow> c # sub_from r rep (Some c) cs
      | Some (pv', s', g) \<Rightarrow>
          if length s' \<le> length cs then rep @ sub_from r rep pv' s'
          else c # sub_from r rep (Some c) cs)"
  by pat_completeness auto
termination
  by (relation "measure (\<lambda>(r, rep, pv, s). length s)") auto

definition re_sub :: "rx \<Rightarrow> string \<Rightarrow> string \<Rightarrow> string" where
  "re_sub r rep t = sub_from r rep None t"

section \<open>\<open>nlp/language.py\<close>\<close>

text \<open>
  A capturing group whose text the source never reads is written without \<open>Grp\<close>.
  \<open>words_rx ws\<close> is \<open>\b(w1|w2|...)\b\<close>.
\<close>

definition words_rx :: "string list \<Rightarrow> rx" where
  "words_rx ws = Seq Bnd (Seq (alts (map lit ws)) Bnd)"

definition a_acute :: char where "a_acute = CHR 0xE1"
definition e_acute :: char where "e_acute = CHR 0xE9"
definition i_acute :: char where "i_acute = CHR 0xED"
definition o_acute :: char where "o_acute = CHR 0xF3"
definition u_acute :: char where "u_acute = CHR 0xFA"
definition n_tilde :: char where "n_tilde = CHR 0xF1"

definition anade_tilde :: string where
  "anade_tilde = ''a'' @ [n_tilde] @ ''ade''"

definition detect_language :: "string \<Rightarrow> string option \<Rightarrow> string" where
  "detect_language text hint =
     (let by_hint =
        (case hint of
           None \<Rightarrow> None
         | Some h \<Rightarrow>
             if h = [] then None
             else let lowered = lower h in
               if prefix ''es'' lowered then Some ''es''
               else if prefix ''en'' lowered then Some ''en''
               else None)
      in case by_hint of
           Some l \<Rightarrow> l
         | None \<Rightarrow>
             let t = lower text in
             if list_ex (\<lambda>ch. py_in [ch] t)
                  [a_acute, e_acute, i_acute, o_acute, u_acute, n_tilde]
             then ''es''
             else if re_test (words_rx [''necesito'', ''agrega'', anade_tilde, ''anade'',
                                        ''busca'', ''quita'', ''borra'', ''elimina'']) t
             then ''es''
             else ''en'')"

section \<open>\<open>nlp/intent.py\<close>\<close>

record ActionLexicon =
  lex_add :: "string list"
  lex_remove :: "string list"
  lex_modify :: "string list"
  lex_search :: "string list"

definition LEXICON_EN :: ActionLexicon where
  "LEXICON_EN = \<lparr>
     lex_add = [''add'', ''need'', ''buy'', ''get'', ''grab'', ''pick up''],
     lex_remove = [''remove'', ''delete'', ''drop'', ''take off'', ''clear''],
     lex_modify = [''change'', ''modify'', ''update'', ''set''],
     lex_search = [''search'', ''find'', ''look for'', ''show''] \<rparr>"

definition LEXICON_ES :: ActionLexicon where
  "LEXICON_ES = \<lparr>
     lex_add = [''agrega'', anade_tilde, ''anade'', ''necesito'', ''compra'', ''comprar'',
                ''quiero''],
     lex_remove = [''elimina'', ''borra'', ''quita'', ''remueve''],
     lex_modify = [''cambia'', ''modifica'', ''actualiza'', ''pon'', ''establece'', ''ajusta''],
     lex_search = [''busca'', ''encuentra'', ''buscar'', ''muestra''] \<rparr>"

definition has_any :: "string \<Rightarrow> string list \<Rightarrow> bool" where
  "has_any text words = list_ex (\<lambda>w. re_test (word_rx w) text) words"

text \<open>
  Spanish \<open>\bno\s+agregues?\b\<close>, English \<open>\b(do\s*not|don't|dont)\s+add\b\<close>.
\<close>

definition negated_add_es :: rx where
  "negated_add_es =
     seqs [Bnd, lit ''no'', Plus (Cls is_space), lit ''agregue'', Opt (Chr CHR ''s''), Bnd]"

definition negated_add_en :: rx where
  "negated_add_en =
     seqs [Bnd,
           alts [seqs [lit ''do'', Star (Cls is_space), lit ''not''],
                 lit (''don'' @ [CHR 0x27] @ ''t''),
                 lit ''dont''],
           Plus (Cls is_space), lit ''add'', Bnd]"

definition is_negated_add :: "string \<Rightarrow> string \<Rightarrow> bool" where
  "is_negated_add text language =
     (if language = ''es'' then re_test negated_add_es text
      else re_test negated_add_en text)"

definition stop_phrases :: "string list" where
  "stop_phrases = [''how'', ''why'', ''what'', ''make'', ''recipe'']"

text \<open>\<open>\b(one|two|three|four|five|six|seven|eight|nine|ten|\d+)\b\s+\w+\<close>\<close>

definition quantity_noun_pattern :: rx where
  "quantity_noun_pattern =
     seqs [Bnd,
           alts (map lit [''one'', ''two'', ''three'', ''four'', ''five'', ''six'', ''seven'',
                          ''eight'', ''nine'', ''ten''] @ [Plus (Cls is_digit)]),
           Bnd, Plus (Cls is_space), Plus (Cls is_word)]"

definition detect_intent :: "string \<Rightarrow> string \<Rightarrow> string" where
  "detect_intent text language =
     (let t = strip (lower text);
          lex = (if language = ''es'' then LEXICON_ES else LEXICON_EN)
      in if list_ex (\<lambda>phrase. py_in phrase t) stop_phrases then ''invalid''
         else if is_negated_add t language then ''search''
         else if has_any t (lex_search lex) then ''search''
         else if has_any t (lex_remove lex) then ''remove''
         else if has_any t (lex_modify lex) then ''modify''
         else let has_add_kw = has_any t (lex_add lex);
                  has_quantity_noun = re_test quantity_noun_pattern t
              in if has_add_kw \<or> has_quantity_noun then ''add'' else ''invalid'')"

section \<open>\<open>nlp/quantity.py\<close>\<close>

text \<open>The dictionaries in insertion order, the order in which the source iterates.\<close>

definition NUMBER_WORDS_EN :: "(string \<times> int) list" where
  "NUMBER_WORDS_EN =
     [(''one'', 1), (''two'', 2), (''three'', 3), (''four'', 4), (''five'', 5),
      (''six'', 6), (''seven'', 7), (''eight'', 8), (''nine'', 9), (''ten'', 10)]"

definition NUMBER_WORDS_ES :: "(string \<times> int) list" where
  "NUMBER_WORDS_ES =
     [(''uno'', 1), (''una'', 1), (''dos'', 2), (''tres'', 3), (''cuatro'', 4),
      (''cinco'', 5), (''seis'', 6), (''siete'', 7), (''ocho'', 8), (''nueve'', 9),
      (''diez'', 10)]"

text \<open>\<open>\b(\d+)\b\<close> and \<open>\s+\<close>\<close>

definition digit_token :: rx where
  "digit_token = Seq Bnd (Seq (Grp (Plus (Cls is_digit))) Bnd)"

definition spaces_rx :: rx where
  "spaces_rx = Plus (Cls is_space)"

text \<open>
  The digit pass: the first bare integer, if positive, is the quantity and every
  occurrence of that token is blanked.
\<close>

definition digit_pass :: "string \<Rightarrow> int \<times> string" where
  "digit_pass t =
     (case re_search digit_token t of
        None \<Rightarrow> (1, t)
      | Some m \<Rightarrow>
          (case py_int (group1 m) of
             None \<Rightarrow> (1, t)
           | Some q \<Rightarrow>
               if q > 0 then (q, re_sub (word_rx (group1 m)) '' '' t) else (1, t)))"

text \<open>
  The loop over the number words: the first word of the table found in the working
  copy sets the quantity, is blanked, and ends the loop.
\<close>

fun word_pass :: "(string \<times> int) list \<Rightarrow> int \<Rightarrow> string \<Rightarrow> int \<times> string" where
  "word_pass [] quantity cleaned_text = (quantity, cleaned_text)"
| "word_pass ((w, v) # words) quantity cleaned_text =
     (if re_test (word_rx w) cleaned_text
      then (v, re_sub (word_rx w) '' '' cleaned_text)
      else word_pass words quantity cleaned_text)"

definition extract_quantity :: "string \<Rightarrow> string \<Rightarrow> int \<times> string" where
  "extract_quantity text language =
     (let t = lower text;
          (quantity, cleaned_text) = digit_pass t;
          words = (if language = ''es'' then NUMBER_WORDS_ES else NUMBER_WORDS_EN);
          (quantity, cleaned_text) = word_pass words quantity cleaned_text
      in (quantity, strip (re_sub spaces_rx '' '' cleaned_text)))"

section \<open>\<open>schemas.py\<close>: the filters\<close>

text \<open>
  The pydantic model of the filters. A field the constructor call leaves out takes its
  default. \<open>price_max\<close> is a \<open>float\<close>, see \<^const>\<open>py_float\<close>.
\<close>

record Filters =
  brand :: string
  price_max :: rat
  size_f :: string

definition Filters_default :: Filters where
  "Filters_default = \<lparr> brand = '''', price_max = 0, size_f = '''' \<rparr>"

section \<open>\<open>nlp/filters.py\<close>\<close>

text \<open>
  The size table in insertion order. Its second key is stored in the source file as the
  eight code points \<open>p e q u e U+00C3 U+00B1 o\<close>.
\<close>

definition SIZE_KEYWORDS :: "(string \<times> string) list" where
  "SIZE_KEYWORDS =
     [(''small'', ''small''),
      (''peque'' @ [CHR 0xC3, CHR 0xB1] @ ''o'', ''small''),
      (''chico'', ''small''),
      (''medium'', ''medium''),
      (''mediano'', ''medium''),
      (''large'', ''large''),
      (''grande'', ''large''),
      (''500ml'', ''500ml''),
      (''1l'', ''1L''),
      (''1 l'', ''1L''),
      (''2kg'', ''2kg''),
      (''2 kg'', ''2kg''),
      (''1kg'', ''1kg'')]"

text \<open>
  The price and brand patterns are compiled with IGNORECASE: a literal character
  matches the characters with the same lower-case form.
\<close>

definition ichr :: "char \<Rightarrow> rx" where
  "ichr c = Cls (\<lambda>x. lower_char x = lower_char c)"

fun ilit :: "string \<Rightarrow> rx" where
  "ilit [] = Eps"
| "ilit (c # cs) = Seq (ichr c) (ilit cs)"

text \<open>\<open>(\d+(?:\.\d+)?)\<close>\<close>

definition number_group :: rx where
  "number_group =
     Grp (Seq (Plus (Cls is_digit)) (Opt (Seq (Chr CHR ''.'') (Plus (Cls is_digit)))))"

text \<open>\<open>(?:under|below|less than|cheaper than|<=).*?(\d+(?:\.\d+)?)\<close>\<close>

definition price_triggers_en :: "string list" where
  "price_triggers_en = [''under'', ''below'', ''less than'', ''cheaper than'', ''<='']"

definition price_rx_en :: rx where
  "price_rx_en = seqs [alts (map ilit price_triggers_en), Lazy (Cls is_dot), number_group]"

text \<open>\<open>(?:menor que|bajo|menos de|por debajo de|hasta|<=).*?(\d+(?:\.\d+)?)\<close>\<close>

definition price_triggers_es :: "string list" where
  "price_triggers_es =
     [''menor que'', ''bajo'', ''menos de'', ''por debajo de'', ''hasta'', ''<='']"

definition price_rx_es :: rx where
  "price_rx_es = seqs [alts (map ilit price_triggers_es), Lazy (Cls is_dot), number_group]"

definition extract_price_max :: "string \<Rightarrow> rat" where
  "extract_price_max text =
     (let t = lower text in
      case re_search price_rx_en t of
        Some m \<Rightarrow> py_float (group1 m)
      | None \<Rightarrow>
          (case re_search price_rx_es t of
             Some m \<Rightarrow> py_float (group1 m)
           | None \<Rightarrow> 0))"

text \<open>\<open>\b(?:brand|from|marca|de)\s+([a-zA-Z0-9][\w\-]+)\<close>, with IGNORECASE\<close>

definition is_ascii_alnum :: "char \<Rightarrow> bool" where
  "is_ascii_alnum c = (let n = code c in
     (48 \<le> n \<and> n \<le> 57) \<or> (65 \<le> n \<and> n \<le> 90) \<or> (97 \<le> n \<and> n \<le> 122))"

definition brand_rx :: rx where
  "brand_rx =
     seqs [Bnd, alts (map ilit [''brand'', ''from'', ''marca'', ''de'']), Plus (Cls is_space),
           Grp (Seq (Cls is_ascii_alnum) (Plus (Cls (\<lambda>c. is_word c \<or> c = CHR ''-''))))]"

text \<open>
  The catalogue file \<open>mock_products.json\<close> is not part of the sources; what the brand
  extractor reads from it is a parameter: \<open>Some\<close> of the lower-cased brand names in
  the order in which the set is iterated, or \<open>None\<close> when loading the file fails (the
  \<open>except Exception\<close> branch).
\<close>

fun first_brand :: "string list \<Rightarrow> string \<Rightarrow> string option" where
  "first_brand [] t = None"
| "first_brand (b # brands) t =
     (if re_test (word_rx b) t then Some (title b) else first_brand brands t)"

definition extract_brand :: "string list option \<Rightarrow> string \<Rightarrow> string" where
  "extract_brand catalogue text =
     (let t = lower text;
          brand_found = (case re_search brand_rx t of Some m \<Rightarrow> group1 m | None \<Rightarrow> []);
          fallback = (if brand_found \<noteq> [] then title brand_found else [])
      in case catalogue of
           None \<Rightarrow> fallback
         | Some brands \<Rightarrow>
             (case first_brand brands t of Some b \<Rightarrow> b | None \<Rightarrow> fallback))"

text \<open>\<open>\b(\d+(?:\.\d+)?\s*(?:ml|l|kg|g|oz|lb))\b\<close>\<close>

definition size_rx :: rx where
  "size_rx =
     seqs [Bnd,
           Grp (seqs [Plus (Cls is_digit),
                      Opt (Seq (Chr CHR ''.'') (Plus (Cls is_digit))),
                      Star (Cls is_space),
                      alts (map lit [''ml'', ''l'', ''kg'', ''g'', ''oz'', ''lb''])]),
           Bnd]"

fun first_size_keyword :: "(string \<times> string) list \<Rightarrow> string \<Rightarrow> string option" where
  "first_size_keyword [] t = None"
| "first_size_keyword ((keyword, size_value) # kws) t =
     (if re_test (word_rx keyword) t then Some size_value else first_size_keyword kws t)"

definition extract_size :: "string \<Rightarrow> string" where
  "extract_size text =
     (let t = lower text in
      case first_size_keyword SIZE_KEYWORDS t of
        Some size_value \<Rightarrow> size_value
      | None \<Rightarrow>
          (case re_search size_rx t of
             Some m \<Rightarrow> filter (\<lambda>c. c \<noteq> CHR '' '') (group1 m)
           | None \<Rightarrow> []))"

definition extract_filters :: "string list option \<Rightarrow> string \<Rightarrow> Filters" where
  "extract_filters catalogue text =
     (let brand = extract_brand catalogue text;
          size = extract_size text;
          price_max = extract_price_max text
      in \<lparr> brand = brand, price_max = price_max, size_f = size \<rparr>)"

section \<open>\<open>nlp/categories.py\<close>\<close>

definition CATEGORY_KEYWORDS :: "(string \<times> string list) list" where
  "CATEGORY_KEYWORDS =
     [(''dairy'', [''milk'', ''cheese'', ''yogurt'', ''butter'']),
      (''produce'', [''apple'', ''apples'', ''banana'', ''bananas'', ''lettuce'', ''tomato'',
                     ''tomatoes'', ''onion'', ''onions'']),
      (''snacks'', [''chips'', ''cookies'', ''crackers'', ''granola'']),
      (''beverages'', [''water'', ''juice'', ''soda'', ''coffee'', ''tea'']),
      (''bakery'', [''bread'', ''bagel'', ''croissant'']),
      (''pantry'', [''rice'', ''pasta'', ''beans'', ''flour'', ''sugar'', ''salt''])]"

fun first_category :: "(string \<times> string list) list \<Rightarrow> string \<Rightarrow> string" where
  "first_category [] item_l = ''other''"
| "first_category ((cat, words) # rest) item_l =
     (if list_ex (\<lambda>w. py_in w item_l) words then cat else first_category rest item_l)"

definition categorize_item :: "string \<Rightarrow> string" where
  "categorize_item item =
     (if item = [] then ''other'' else first_category CATEGORY_KEYWORDS (lower item))"

section \<open>\<open>nlp/parser.py\<close>\<close>

text \<open>
  The class \<open>[^a-zA-Z0-9...\s\-]\<close> of the first substitution; the dots stand for the
  twelve accented letters, given here by code point.
\<close>

definition is_kept :: "char \<Rightarrow> bool" where
  "is_kept c =
     (is_ascii_alnum c \<or>
      c \<in> set [CHR 0xE1, CHR 0xE9, CHR 0xED, CHR 0xF3, CHR 0xFA, CHR 0xF1,
                CHR 0xC1, CHR 0xC9, CHR 0xCD, CHR 0xD3, CHR 0xDA, CHR 0xD1] \<or>
      is_space c \<or> c = CHR ''-'')"

definition containers_en :: "string list" where
  "containers_en = [''bottle'', ''bottles'', ''pack'', ''packs'', ''bag'', ''bags'', ''box'',
                    ''boxes'', ''cans'', ''can'']"

definition containers_es :: "string list" where
  "containers_es = [''botella'', ''botellas'', ''paquete'', ''paquetes'', ''bolsa'', ''bolsas'',
                    ''caja'', ''cajas'', ''latas'', ''lata'']"

definition stopwords_en :: "string list" where
  "stopwords_en =
     [''a'', ''an'', ''the'', ''some'', ''of'', ''to'', ''for'', ''please'', ''me'', ''i'', ''we'',
      ''need'', ''want'', ''buy'', ''add'', ''remove'', ''delete'', ''change'', ''set'',
      ''update'', ''modify'', ''search'', ''find'', ''look'', ''show'', ''get'']"

definition stopwords_es :: "string list" where
  "stopwords_es =
     [''un'', ''una'', ''unos'', ''unas'', ''el'', ''la'', ''los'', ''las'', ''de'', ''del'',
      ''por'', ''para'', ''porfavor'', ''por'', ''favor'', ''yo'', ''necesito'', ''quiero'',
      ''compra'', ''agrega'', anade_tilde, ''anade'', ''quita'', ''borra'', ''elimina'',
      ''cambia'', ''modifica'', ''actualiza'', ''busca'', ''muestra'']"

definition extract_item :: "string \<Rightarrow> string \<Rightarrow> string" where
  "extract_item text language =
     (let t = lower (re_sub (Cls (\<lambda>c. \<not> is_kept c)) '' '' text);
          t = strip (re_sub spaces_rx '' '' t);
          t = strip (re_sub (Seq Bnd (Seq (Plus (Cls is_digit)) Bnd)) '' '' t);
          t = strip (re_sub (words_rx containers_en) '' '' t);
          t = strip (re_sub (words_rx containers_es) '' '' t);
          t = strip (re_sub (words_rx [''of'', ''de'']) '' '' t);
          stop = (if language = ''es'' then stopwords_es else stopwords_en);
          tokens = filter (\<lambda>tok. tok \<noteq> [] \<and> tok \<notin> set stop) (split_sp t)
      in strip (join_sp tokens))"

subsection \<open>\<open>schemas.py\<close>: the command\<close>

record ParsedVoiceCommand =
  action :: string
  item :: string
  quantity :: int
  category :: string
  filters :: Filters
  language :: string
  raw_text :: string

datatype error = ValidationError

text \<open>\<open>Action = Literal["add", "remove", "modify", "search", "invalid"]\<close>\<close>

definition Action :: "string list" where
  "Action = [''add'', ''remove'', ''modify'', ''search'', ''invalid'']"

text \<open>
  Building a \<open>ParsedVoiceCommand\<close> validates it: an action outside the literal type
  raises ValidationError.
\<close>

definition new_ParsedVoiceCommand ::
  "string \<Rightarrow> string \<Rightarrow> int \<Rightarrow> string \<Rightarrow> Filters \<Rightarrow> string \<Rightarrow> string
     \<Rightarrow> error + ParsedVoiceCommand" where
  "new_ParsedVoiceCommand a i q c f l r =
     (if a \<in> set Action
      then Inr \<lparr> action = a, item = i, quantity = q, category = c, filters = f,
                 language = l, raw_text = r \<rparr>
      else Inl ValidationError)"

subsection \<open>The entry point\<close>

text \<open>
  \<open>_openai_parse\<close> calls an external service; its result is a parameter of the model,
  a function of the text and the language. It returns \<open>None\<close> at once when the
  environment variable \<open>OPENAI_API_KEY\<close> is unset or \<open>ENABLE_OPENAI_PARSER\<close> is not
  switched on (its default): that is \<open>openai_off\<close>, and then the rule-based pipeline
  alone decides the result.
\<close>

definition openai_off :: "string \<Rightarrow> string \<Rightarrow> ParsedVoiceCommand option" where
  "openai_off text lang = None"

definition parse_voice_command ::
  "(string \<Rightarrow> string \<Rightarrow> ParsedVoiceCommand option) \<Rightarrow> string list option
     \<Rightarrow> string \<Rightarrow> string option \<Rightarrow> error + ParsedVoiceCommand" where
  "parse_voice_command openai_parse catalogue text language_hint =
     (let lang = detect_language text language_hint in
      case openai_parse text lang of
        Some parsed \<Rightarrow>
          Inr (if category parsed = [] \<or> category parsed = ''other''
               then parsed \<lparr> category := categorize_item (item parsed) \<rparr>
               else parsed)
      | None \<Rightarrow>
          (let act = detect_intent text lang;
               flt = extract_filters catalogue text;
               (qty, cleaned_text) = extract_quantity text lang;
               itm = extract_item cleaned_text lang;
               cat = categorize_item itm;
               qty = (if act \<in> {''remove'', ''modify''} \<and> itm = []
                      then max 1 qty else qty)
           in new_ParsedVoiceCommand act itm (max 1 qty) cat
                (Filters_default \<lparr> brand := brand flt, price_max := price_max flt \<rparr>)
                lang text))"

section \<open>Normalised whitespace\<close>


section \<open>Facts about the characters\<close>

text \<open>The classes and the case mapping on the characters the examples use.\<close>

lemma is_word_chars [simp]:
  "is_word CHR ''a''" "is_word CHR ''b''" "is_word CHR ''c''" "is_word CHR ''d''"
  "is_word CHR ''e''" "is_word CHR ''f''" "is_word CHR ''g''" "is_word CHR ''h''"
  "is_word CHR ''i''" "is_word CHR ''j''" "is_word CHR ''k''" "is_word CHR ''l''"
  "is_word CHR ''m''" "is_word CHR ''n''" "is_word CHR ''o''" "is_word CHR ''p''"
  "is_word CHR ''q''" "is_word CHR ''r''" "is_word CHR ''s''" "is_word CHR ''t''"
  "is_word CHR ''u''" "is_word CHR ''v''" "is_word CHR ''w''" "is_word CHR ''x''"
  "is_word CHR ''y''" "is_word CHR ''z''" "is_word CHR ''0''" "is_word CHR ''1''"
  "is_word CHR ''2''" "is_word CHR ''3''" "is_word CHR ''4''" "is_word CHR ''5''"
  "is_word CHR ''6''" "is_word CHR ''7''" "is_word CHR ''8''" "is_word CHR ''9''"
  "is_word CHR ''_''"
  by (simp_all add: is_word_def is_alnum_def code_def)


lemma not_is_word_chars [simp]:
  "\<not> is_word CHR '' ''" "\<not> is_word CHR ''.''" "\<not> is_word CHR ''-''" "\<not> is_word CHR ''<''"
  "\<not> is_word CHR ''=''" "\<not> is_word CHR 0x27"
  by (simp_all add: is_word_def is_alnum_def code_def)


lemma is_digit_chars [simp]:
  "is_digit CHR ''0''" "is_digit CHR ''1''" "is_digit CHR ''2''" "is_digit CHR ''3''"
  "is_digit CHR ''4''" "is_digit CHR ''5''" "is_digit CHR ''6''" "is_digit CHR ''7''"
  "is_digit CHR ''8''" "is_digit CHR ''9''"
  by (simp_all add: is_digit_def code_def)


lemma not_is_digit_chars [simp]:
  "\<not> is_digit CHR ''a''" "\<not> is_digit CHR ''b''" "\<not> is_digit CHR ''c''" "\<not> is_digit CHR ''d''"
  "\<not> is_digit CHR ''e''" "\<not> is_digit CHR ''f''" "\<not> is_digit CHR ''g''" "\<not> is_digit CHR ''h''"
  "\<not> is_digit CHR ''i''" "\<not> is_digit CHR ''j''" "\<not> is_digit CHR ''k''" "\<not> is_digit CHR ''l''"
  "\<not> is_digit CHR ''m''" "\<not> is_digit CHR ''n''" "\<not> is_digit CHR ''o''" "\<not> is_digit CHR ''p''"
  "\<not> is_digit CHR ''q''" "\<not> is_digit CHR ''r''" "\<not> is_digit CHR ''s''" "\<not> is_digit CHR ''t''"
  "\<not> is_digit CHR ''u''" "\<not> is_digit CHR ''v''" "\<not> is_digit CHR ''w''" "\<not> is_digit CHR ''x''"
  "\<not> is_digit CHR ''y''" "\<not> is_digit CHR ''z''" "\<not> is_digit CHR ''_''" "\<not> is_digit CHR '' ''"
  "\<not> is_digit CHR ''.''" "\<not> is_digit CHR ''-''" "\<not> is_digit CHR ''<''" "\<not> is_digit CHR ''=''"
  "\<not> is_digit CHR 0x27"
  by (simp_all add: is_digit_def code_def)


lemma not_is_space_chars [simp]:
  "\<not> is_space CHR ''a''" "\<not> is_space CHR ''b''" "\<not> is_space CHR ''c''" "\<not> is_space CHR ''d''"
  "\<not> is_space CHR ''e''" "\<not> is_space CHR ''f''" "\<not> is_space CHR ''g''" "\<not> is_space CHR ''h''"
  "\<not> is_space CHR ''i''" "\<not> is_space CHR ''j''" "\<not> is_space CHR ''k''" "\<not> is_space CHR ''l''"
  "\<not> is_space CHR ''m''" "\<not> is_space CHR ''n''" "\<not> is_space CHR ''o''" "\<not> is_space CHR ''p''"
  "\<not> is_space CHR ''q''" "\<not> is_space CHR ''r''" "\<not> is_space CHR ''s''" "\<not> is_space CHR ''t''"
  "\<not> is_space CHR ''u''" "\<not> is_space CHR ''v''" "\<not> is_space CHR ''w''" "\<not> is_space CHR ''x''"
  "\<not> is_space CHR ''y''" "\<not> is_space CHR ''z''" "\<not> is_space CHR ''0''" "\<not> is_space CHR ''1''"
  "\<not> is_space CHR ''2''" "\<not> is_space CHR ''3''" "\<not> is_space CHR ''4''" "\<not> is_space CHR ''5''"
  "\<not> is_space CHR ''6''" "\<not> is_space CHR ''7''" "\<not> is_space CHR ''8''" "\<not> is_space CHR ''9''"
  "\<not> is_space CHR ''_''" "\<not> is_space CHR ''.''" "\<not> is_space CHR ''-''" "\<not> is_space CHR ''<''"
  "\<not> is_space CHR ''=''" "\<not> is_space CHR 0x27"
  by (simp_all add: is_space_def code_def)


lemma is_space_blank [simp]: "is_space CHR '' ''"
  by (simp add: is_space_def code_def)


lemma is_dot_chars [simp]:
  "is_dot CHR ''a''" "is_dot CHR ''b''" "is_dot CHR ''c''" "is_dot CHR ''d''"
  "is_dot CHR ''e''" "is_dot CHR ''f''" "is_dot CHR ''g''" "is_dot CHR ''h''"
  "is_dot CHR ''i''" "is_dot CHR ''j''" "is_dot CHR ''k''" "is_dot CHR ''l''"
  "is_dot CHR ''m''" "is_dot CHR ''n''" "is_dot CHR ''o''" "is_dot CHR ''p''"
  "is_dot CHR ''q''" "is_dot CHR ''r''" "is_dot CHR ''s''" "is_dot CHR ''t''"
  "is_dot CHR ''u''" "is_dot CHR ''v''" "is_dot CHR ''w''" "is_dot CHR ''x''"
  "is_dot CHR ''y''" "is_dot CHR ''z''" "is_dot CHR ''0''" "is_dot CHR ''1''"
  "is_dot CHR ''2''" "is_dot CHR ''3''" "is_dot CHR ''4''" "is_dot CHR ''5''"
  "is_dot CHR ''6''" "is_dot CHR ''7''" "is_dot CHR ''8''" "is_dot CHR ''9''"
  "is_dot CHR ''_''" "is_dot CHR '' ''" "is_dot CHR ''.''" "is_dot CHR ''-''"
  "is_dot CHR ''<''" "is_dot CHR ''=''" "is_dot CHR 0x27"
  by (simp_all add: is_dot_def code_def)


lemma lower_char_fixed [simp]:
  "lower_char CHR ''a'' = CHR ''a''" "lower_char CHR ''b'' = CHR ''b''" "lower_char CHR ''c'' = CHR ''c''" "lower_char CHR ''d'' = CHR ''d''"
  "lower_char CHR ''e'' = CHR ''e''" "lower_char CHR ''f'' = CHR ''f''" "lower_char CHR ''g'' = CHR ''g''" "lower_char CHR ''h'' = CHR ''h''"
  "lower_char CHR ''i'' = CHR ''i''" "lower_char CHR ''j'' = CHR ''j''" "lower_char CHR ''k'' = CHR ''k''" "lower_char CHR ''l'' = CHR ''l''"
  "lower_char CHR ''m'' = CHR ''m''" "lower_char CHR ''n'' = CHR ''n''" "lower_char CHR ''o'' = CHR ''o''" "lower_char CHR ''p'' = CHR ''p''"
  "lower_char CHR ''q'' = CHR ''q''" "lower_char CHR ''r'' = CHR ''r''" "lower_char CHR ''s'' = CHR ''s''" "lower_char CHR ''t'' = CHR ''t''"
  "lower_char CHR ''u'' = CHR ''u''" "lower_char CHR ''v'' = CHR ''v''" "lower_char CHR ''w'' = CHR ''w''" "lower_char CHR ''x'' = CHR ''x''"
  "lower_char CHR ''y'' = CHR ''y''" "lower_char CHR ''z'' = CHR ''z''" "lower_char CHR ''0'' = CHR ''0''" "lower_char CHR ''1'' = CHR ''1''"
  "lower_char CHR ''2'' = CHR ''2''" "lower_char CHR ''3'' = CHR ''3''" "lower_char CHR ''4'' = CHR ''4''" "lower_char CHR ''5'' = CHR ''5''"
  "lower_char CHR ''6'' = CHR ''6''" "lower_char CHR ''7'' = CHR ''7''" "lower_char CHR ''8'' = CHR ''8''" "lower_char CHR ''9'' = CHR ''9''"
  "lower_char CHR ''_'' = CHR ''_''" "lower_char CHR '' '' = CHR '' ''" "lower_char CHR ''.'' = CHR ''.''" "lower_char CHR ''-'' = CHR ''-''"
  "lower_char CHR ''<'' = CHR ''<''" "lower_char CHR ''='' = CHR ''=''" "lower_char CHR 0x27 = CHR 0x27"
  by (simp_all add: lower_char_def is_upper_def code_def)


lemma lower_char_upper [simp]:
  "lower_char CHR ''A'' = CHR ''a''" "lower_char CHR ''B'' = CHR ''b''" "lower_char CHR ''C'' = CHR ''c''"
  "lower_char CHR ''D'' = CHR ''d''" "lower_char CHR ''E'' = CHR ''e''" "lower_char CHR ''F'' = CHR ''f''"
  "lower_char CHR ''G'' = CHR ''g''" "lower_char CHR ''H'' = CHR ''h''" "lower_char CHR ''I'' = CHR ''i''"
  "lower_char CHR ''J'' = CHR ''j''" "lower_char CHR ''K'' = CHR ''k''" "lower_char CHR ''L'' = CHR ''l''"
  "lower_char CHR ''M'' = CHR ''m''" "lower_char CHR ''N'' = CHR ''n''" "lower_char CHR ''O'' = CHR ''o''"
  "lower_char CHR ''P'' = CHR ''p''" "lower_char CHR ''Q'' = CHR ''q''" "lower_char CHR ''R'' = CHR ''r''"
  "lower_char CHR ''S'' = CHR ''s''" "lower_char CHR ''T'' = CHR ''t''" "lower_char CHR ''U'' = CHR ''u''"
  "lower_char CHR ''V'' = CHR ''v''" "lower_char CHR ''W'' = CHR ''w''" "lower_char CHR ''X'' = CHR ''x''"
  "lower_char CHR ''Y'' = CHR ''y''" "lower_char CHR ''Z'' = CHR ''z''"
  by (simp_all add: lower_char_def is_upper_def code_def char_of_def bit_0)


lemma is_kept_chars [simp]:
  "is_kept CHR ''a''" "is_kept CHR ''b''" "is_kept CHR ''c''" "is_kept CHR ''d''"
  "is_kept CHR ''e''" "is_kept CHR ''f''" "is_kept CHR ''g''" "is_kept CHR ''h''"
  "is_kept CHR ''i''" "is_kept CHR ''j''" "is_kept CHR ''k''" "is_kept CHR ''l''"
  "is_kept CHR ''m''" "is_kept CHR ''n''" "is_kept CHR ''o''" "is_kept CHR ''p''"
  "is_kept CHR ''q''" "is_kept CHR ''r''" "is_kept CHR ''s''" "is_kept CHR ''t''"
  "is_kept CHR ''u''" "is_kept CHR ''v''" "is_kept CHR ''w''" "is_kept CHR ''x''"
  "is_kept CHR ''y''" "is_kept CHR ''z''" "is_kept CHR ''0''" "is_kept CHR ''1''"
  "is_kept CHR ''2''" "is_kept CHR ''3''" "is_kept CHR ''4''" "is_kept CHR ''5''"
  "is_kept CHR ''6''" "is_kept CHR ''7''" "is_kept CHR ''8''" "is_kept CHR ''9''"
  "is_kept CHR '' ''" "is_kept CHR ''-''"
  by (simp_all add: is_kept_def is_ascii_alnum_def is_space_def code_def)

section \<open>Facts about the matcher\<close>

lemma ms_lit:
  "ms (lit w) (pv, s, g) =
     (if prefix w s then [(if w = [] then pv else Some (last w), drop (length w) s, g)] else [])"
proof (induction w arbitrary: pv s)
  case Nil
  show ?case by simp
next
  case (Cons c w)
  show ?case
  proof (cases s)
    case Nil
    then show ?thesis by simp
  next
    case (Cons x xs)
    with Cons.IH [of "Some x" xs] show ?thesis by auto
  qed
qed

lemma first_match_word_rx:
  "first_match (word_rx w) pv s =
     (if at_boundary pv s \<and> prefix w s \<and>
         at_boundary (if w = [] then pv else Some (last w)) (drop (length w) s)
      then Some (if w = [] then pv else Some (last w), drop (length w) s, None)
      else None)"
  by (simp add: first_match_def word_rx_def ms_lit)

lemma ms_star_cls_Nil: "ms (Star (Cls p)) (pv, [], g) = [(pv, [], g)]"
  by (simp add: rest_len_def)

lemma ms_star_cls_Cons:
  "ms (Star (Cls p)) (pv, c # cs, g) =
     (if p c then ms (Star (Cls p)) (Some c, cs, g) @ [(pv, c # cs, g)] else [(pv, c # cs, g)])"
  by (simp add: rest_len_def)

lemma ms_lazy_cls_Nil: "ms (Lazy (Cls p)) (pv, [], g) = [(pv, [], g)]"
  by (simp add: rest_len_def)

lemma ms_lazy_cls_Cons:
  "ms (Lazy (Cls p)) (pv, c # cs, g) =
     (pv, c # cs, g) # (if p c then ms (Lazy (Cls p)) (Some c, cs, g) else [])"
  by (simp add: rest_len_def)





section \<open>Substrings and the intent\<close>

lemma py_in_sublist: "py_in p t = sublist p t"
  by (induction t) (simp_all add: sublist_Cons_right)

lemma dropWhile_keeps_sublist:
  assumes "sublist w t" and "w \<noteq> []" and "\<not> P (hd w)"
  shows "sublist w (dropWhile P t)"
proof -
  from assms(1) obtain ps ss where t: "t = ps @ w @ ss" by (auto simp: sublist_def)
  show ?thesis
  proof (cases "\<forall>x \<in> set ps. P x")
    case True
    with assms(2,3) have "dropWhile P t = w @ ss"
      unfolding t by (cases w) (simp_all add: dropWhile_append2)
    then show ?thesis by (auto simp: sublist_def intro: exI [of _ "[]"])
  next
    case False
    then have "dropWhile P t = dropWhile P ps @ w @ ss"
      unfolding t by (auto simp: dropWhile_append1)
    then show ?thesis by (auto simp: sublist_def)
  qed
qed

lemma strip_keeps_sublist:
  assumes "sublist w t" and "w \<noteq> []" and "\<not> is_space (hd w)" and "\<not> is_space (last w)"
  shows "sublist w (strip t)"
proof -
  have 1: "sublist w (dropWhile is_space t)"
    using assms(1-3) by (rule dropWhile_keeps_sublist)
  then have "sublist (rev w) (rev (dropWhile is_space t))" by (simp add: sublist_rev)
  moreover have "rev w \<noteq> []" using assms(2) by simp
  moreover have "\<not> is_space (hd (rev w))" using assms(2,4) by (simp add: hd_rev)
  ultimately have "sublist (rev w) (dropWhile is_space (rev (dropWhile is_space t)))"
    by (rule dropWhile_keeps_sublist)
  then have "sublist (rev (rev w)) (rev (dropWhile is_space (rev (dropWhile is_space t))))"
    by (simp only: sublist_rev)
  then show ?thesis by (simp add: strip_def)
qed

lemma detect_intent_stop_phrase:
  "list_ex (\<lambda>phrase. py_in phrase (strip (lower text))) stop_phrases \<Longrightarrow>
     detect_intent text lang = ''invalid''"
  by (simp add: detect_intent_def Let_def)

lemma if_mem: "a \<in> S \<Longrightarrow> b \<in> S \<Longrightarrow> (if c then a else b) \<in> S"
  by simp

lemma detect_intent_in_Action: "detect_intent text lang \<in> set Action"
  unfolding detect_intent_def Let_def by (intro if_mem) (simp_all add: Action_def)

lemma search_from_word_sublist:
  "search_from (word_rx w) pv s \<noteq> None \<Longrightarrow> sublist w s"
proof (induction s arbitrary: pv)
  case Nil
  then show ?case
    by (auto simp: first_match_word_rx split: if_splits)
next
  case (Cons c cs)
  show ?case
  proof (cases "first_match (word_rx w) pv (c # cs)")
    case None
    with Cons.prems have "search_from (word_rx w) (Some c) cs \<noteq> None" by simp
    then have "sublist w cs" by (rule Cons.IH)
    then show ?thesis by (simp add: sublist_Cons_right)
  next
    case (Some m)
    then have "prefix w (c # cs)" by (auto simp: first_match_word_rx split: if_splits)
    then show ?thesis by (simp add: sublist_Cons_right)
  qed
qed

lemma re_test_word_sublist: "re_test (word_rx w) t \<Longrightarrow> sublist w t"
  unfolding re_test_def re_search_def by (rule search_from_word_sublist)

lemma parse_voice_command_rule_based:
  "\<exists>c. parse_voice_command openai_off catalogue text hint = Inr c \<and>
       action c = detect_intent text (detect_language text hint) \<and>
       quantity c = max 1 (fst (extract_quantity text (detect_language text hint))) \<and>
       filters c = \<lparr> brand = extract_brand catalogue text,
                      price_max = extract_price_max text, size_f = [] \<rparr>"
  using detect_intent_in_Action [of "text" "detect_language text hint"]
  by (simp add: parse_voice_command_def openai_off_def new_ParsedVoiceCommand_def Let_def
        extract_filters_def Filters_default_def split: prod.splits)

section \<open>Whole words and runs of word characters\<close>

lemma is_digit_is_word: "is_digit c \<Longrightarrow> is_word c"
  by (auto simp: is_digit_def is_word_def is_alnum_def Let_def)

lemma fm_word_Nil: "w \<noteq> [] \<Longrightarrow> first_match (word_rx w) pv [] = None"
  by (simp add: first_match_word_rx)

lemma fm_word_nonword:
  "w \<noteq> [] \<Longrightarrow> is_word (hd w) \<Longrightarrow> \<not> is_word c \<Longrightarrow> first_match (word_rx w) pv (c # cs) = None"
  by (cases w) (auto simp: first_match_word_rx)

lemma fm_word_inrun:
  "is_word_opt pv \<Longrightarrow> is_word c \<Longrightarrow> first_match (word_rx w) pv (c # cs) = None"
  by (simp add: first_match_word_rx at_boundary_def is_word_opt_def)

lemma takeWhile_run:
  assumes "\<forall>x\<in>set r. P x" and "rest = [] \<or> \<not> P (hd rest)"
  shows "takeWhile P (r @ rest) = r" and "dropWhile P (r @ rest) = rest"
  using assms by (cases rest; simp add: takeWhile_append2 dropWhile_append2)+

lemma boundary_after_word:
  "is_word c \<Longrightarrow> rest = [] \<or> \<not> is_word (hd rest) \<Longrightarrow> at_boundary (Some c) rest"
  by (cases rest) (auto simp: at_boundary_def is_word_opt_def)

lemma word_prefix_run:
  assumes "w \<noteq> []" and "\<forall>x\<in>set w. is_word x"
  shows "(prefix w s \<and> at_boundary (Some (last w)) (drop (length w) s))
           = (takeWhile is_word s = w)"
proof
  assume "prefix w s \<and> at_boundary (Some (last w)) (drop (length w) s)"
  then obtain rest where s: "s = w @ rest" and b: "at_boundary (Some (last w)) rest"
    by (auto simp: prefix_def)
  from assms have "is_word (last w)" by simp
  with b have "rest = [] \<or> \<not> is_word (hd rest)"
    by (cases rest) (auto simp: at_boundary_def is_word_opt_def)
  with assms(2) show "takeWhile is_word s = w" unfolding s by (rule takeWhile_run(1))
next
  assume t: "takeWhile is_word s = w"
  have s: "s = w @ dropWhile is_word s"
    using takeWhile_dropWhile_id [of is_word s] t by simp
  have d: "drop (length w) s = dropWhile is_word s"
    using dropWhile_eq_drop [of is_word s] t by simp
  have "dropWhile is_word s = [] \<or> \<not> is_word (hd (dropWhile is_word s))"
    using hd_dropWhile [of is_word s] by blast
  moreover from assms have "is_word (last w)" by simp
  ultimately have "at_boundary (Some (last w)) (dropWhile is_word s)"
    by (rule boundary_after_word [rotated])
  moreover have "prefix w s" using s by (metis prefixI)
  ultimately show "prefix w s \<and> at_boundary (Some (last w)) (drop (length w) s)"
    using d by simp
qed

lemma fm_word_run_start:
  assumes "\<not> is_word_opt pv" and "is_word c" and "w \<noteq> []" and "\<forall>x\<in>set w. is_word x"
  shows "first_match (word_rx w) pv (c # cs) =
           (if takeWhile is_word (c # cs) = w
            then Some (Some (last w), dropWhile is_word (c # cs), None) else None)"
proof -
  have b: "at_boundary pv (c # cs)"
    using assms(1,2) by (simp add: at_boundary_def is_word_opt_def)
  have d: "takeWhile is_word (c # cs) = w \<Longrightarrow>
             drop (length w) (c # cs) = dropWhile is_word (c # cs)"
    using dropWhile_eq_drop [of is_word "c # cs"] by simp
  show ?thesis
    using word_prefix_run [OF assms(3,4), of "c # cs"] assms(3) b d
    by (auto simp: first_match_word_rx)
qed

lemma search_word_nonword:
  "w \<noteq> [] \<Longrightarrow> is_word (hd w) \<Longrightarrow> \<not> is_word c \<Longrightarrow>
     search_from (word_rx w) pv (c # cs) = search_from (word_rx w) (Some c) cs"
  by (simp add: fm_word_nonword)

lemma sub_word_nonword:
  "w \<noteq> [] \<Longrightarrow> is_word (hd w) \<Longrightarrow> \<not> is_word c \<Longrightarrow>
     sub_from (word_rx w) rep pv (c # cs) = c # sub_from (word_rx w) rep (Some c) cs"
  by (simp add: fm_word_nonword)

lemma search_word_inrun:
  "is_word_opt pv \<Longrightarrow>
     search_from (word_rx w) pv s =
     search_from (word_rx w)
       (if takeWhile is_word s = [] then pv else Some (last (takeWhile is_word s)))
       (dropWhile is_word s)"
proof (induction s arbitrary: pv)
  case Nil
  show ?case by simp
next
  case (Cons c cs)
  show ?case
  proof (cases "is_word c")
    case True
    have "is_word_opt (Some c)" using True by (simp add: is_word_opt_def)
    from Cons.IH [OF this] True Cons.prems show ?thesis
      by (simp add: fm_word_inrun)
  next
    case False
    then show ?thesis by simp
  qed
qed

lemma sub_word_inrun:
  "is_word_opt pv \<Longrightarrow>
     sub_from (word_rx w) rep pv s =
     takeWhile is_word s @
     sub_from (word_rx w) rep
       (if takeWhile is_word s = [] then pv else Some (last (takeWhile is_word s)))
       (dropWhile is_word s)"
proof (induction s arbitrary: pv)
  case Nil
  show ?case by simp
next
  case (Cons c cs)
  show ?case
  proof (cases "is_word c")
    case True
    have "is_word_opt (Some c)" using True by (simp add: is_word_opt_def)
    from Cons.IH [OF this] True Cons.prems show ?thesis
      by (simp add: fm_word_inrun)
  next
    case False
    then show ?thesis by simp
  qed
qed

lemma search_word_run:
  assumes "\<not> is_word_opt pv" and "r \<noteq> []" and "\<forall>x\<in>set r. is_word x"
    and "rest = [] \<or> \<not> is_word (hd rest)"
    and "w \<noteq> []" and "\<forall>x\<in>set w. is_word x"
  shows "search_from (word_rx w) pv (r @ rest) =
           (if r = w then Some (Some (last w), rest, None)
            else search_from (word_rx w) (Some (last r)) rest)"
proof -
  obtain c r' where r: "r = c # r'" using assms(2) by (cases r) auto
  have c: "is_word c" using assms(3) r by simp
  have tw: "takeWhile is_word (c # r' @ rest) = r" "dropWhile is_word (c # r' @ rest) = rest"
    using takeWhile_run [OF assms(3,4)] r by simp_all
  have tw': "takeWhile is_word (r' @ rest) = r'" "dropWhile is_word (r' @ rest) = rest"
    using tw c r by simp_all
  have fm: "first_match (word_rx w) pv (c # r' @ rest) =
              (if r = w then Some (Some (last w), rest, None) else None)"
    using fm_word_run_start [OF assms(1) c assms(5,6), of "r' @ rest"] tw by simp
  have "is_word_opt (Some c)" using c by (simp add: is_word_opt_def)
  from search_word_inrun [OF this, of w "r' @ rest"]
  have "search_from (word_rx w) (Some c) (r' @ rest) =
          search_from (word_rx w) (Some (last r)) rest"
    using tw' r by simp
  with fm show ?thesis unfolding r by simp
qed

lemma sub_word_run:
  assumes "\<not> is_word_opt pv" and "r \<noteq> []" and "\<forall>x\<in>set r. is_word x"
    and "rest = [] \<or> \<not> is_word (hd rest)"
    and "w \<noteq> []" and "\<forall>x\<in>set w. is_word x"
  shows "sub_from (word_rx w) rep pv (r @ rest) =
           (if r = w then rep else r) @ sub_from (word_rx w) rep (Some (last r)) rest"
proof -
  obtain c r' where r: "r = c # r'" using assms(2) by (cases r) auto
  have c: "is_word c" using assms(3) r by simp
  have tw: "takeWhile is_word (c # r' @ rest) = c # r'"
      "dropWhile is_word (c # r' @ rest) = rest"
    using takeWhile_run [OF assms(3,4)] r by simp_all
  have tw': "takeWhile is_word (r' @ rest) = r'" "dropWhile is_word (r' @ rest) = rest"
    using tw c by simp_all
  have fm: "first_match (word_rx w) pv (c # r' @ rest) =
              (if c # r' = w then Some (Some (last (c # r')), rest, None) else None)"
    using fm_word_run_start [OF assms(1) c assms(5,6), of "r' @ rest"] tw by auto
  have "is_word_opt (Some c)" using c by (simp add: is_word_opt_def)
  from sub_word_inrun [OF this, of w rep "r' @ rest"]
  have inrun: "sub_from (word_rx w) rep (Some c) (r' @ rest) =
          r' @ sub_from (word_rx w) rep (Some (last (c # r'))) rest"
    using tw' by simp
  have "sub_from (word_rx w) rep pv (c # r' @ rest) =
          (if c # r' = w then rep else c # r') @
          sub_from (word_rx w) rep (Some (last (c # r'))) rest"
    by (simp only: sub_from.simps fm inrun split: if_splits) simp
  then show ?thesis unfolding r by simp
qed

lemma search_after_sub:
  assumes w: "w \<noteq> []" "\<forall>x\<in>set w. is_word x"
    and D: "D \<noteq> []" "\<forall>x\<in>set D. is_word x"
    and ne: "w \<noteq> D"
  shows "\<not> is_word_opt pv \<Longrightarrow>
           (search_from (word_rx w) pv (sub_from (word_rx D) '' '' pv s) = None)
             = (search_from (word_rx w) pv s = None)"
proof (induction s arbitrary: pv rule: length_induct)
  case (1 s)
  have hw: "is_word (hd w)" using w by (cases w) auto
  have hD: "is_word (hd D)" using D by (cases D) auto
  have blank: "\<not> is_word CHR '' ''" by (simp add: is_word_def is_alnum_def code_def)
  show ?case
  proof (cases s)
    case Nil
    then show ?thesis by simp
  next
    case (Cons c cs)
    show ?thesis
    proof (cases "is_word c")
      case False
      then have np: "\<not> is_word_opt (Some c)" by (simp add: is_word_opt_def)
      have "length cs < length s" using Cons by simp
      with 1(1) np have
        "(search_from (word_rx w) (Some c) (sub_from (word_rx D) '' '' (Some c) cs) = None)
           = (search_from (word_rx w) (Some c) cs = None)" by blast
      then show ?thesis
        unfolding Cons
        by (simp only: sub_word_nonword [OF D(1) hD False]
              search_word_nonword [OF w(1) hw False])
    next
      case True
      define r where "r = takeWhile is_word s"
      define s' where "s' = dropWhile is_word s"
      have s: "s = r @ s'" by (simp add: r_def s'_def)
      have rne: "r \<noteq> []" using True Cons by (simp add: r_def)
      have rw: "\<forall>x\<in>set r. is_word x" unfolding r_def by (auto dest: set_takeWhileD)
      have s'h: "s' = [] \<or> \<not> is_word (hd s')"
        unfolding s'_def using hd_dropWhile [of is_word s] by blast
      have lr: "\<not> is_word_opt pv" by (rule 1(2))
      have sub: "sub_from (word_rx D) '' '' pv s =
                   (if r = D then '' '' else r) @ sub_from (word_rx D) '' '' (Some (last r)) s'"
        unfolding s by (rule sub_word_run [OF lr rne rw s'h D])
      have srch: "search_from (word_rx w) pv s =
                    (if r = w then Some (Some (last w), s', None)
                     else search_from (word_rx w) (Some (last r)) s')"
        unfolding s by (rule search_word_run [OF lr rne rw s'h w])
      show ?thesis
      proof (cases s')
        case Nil
        show ?thesis
        proof (cases "r = D")
          case True
          then show ?thesis
            using sub srch Nil ne w(1) hw blank
            by (simp add: fm_word_nonword fm_word_Nil)
        next
          case False
          have "search_from (word_rx w) pv (r @ []) =
                  (if r = w then Some (Some (last w), [], None)
                   else search_from (word_rx w) (Some (last r)) [])"
            by (rule search_word_run [OF lr rne rw _ w]) simp
          then show ?thesis using sub srch Nil False by simp
        qed
      next
        case (Cons c' s'')
        have c': "\<not> is_word c'" using s'h Cons by simp
        have np: "\<not> is_word_opt (Some c')" using c' by (simp add: is_word_opt_def)
        have "length s'' < length s" using s Cons by simp
        with 1(1) np have IH:
          "(search_from (word_rx w) (Some c') (sub_from (word_rx D) '' '' (Some c') s'') = None)
             = (search_from (word_rx w) (Some c') s'' = None)" by blast
        define X where "X = sub_from (word_rx D) '' '' (Some c') s''"
        have x: "sub_from (word_rx D) '' '' (Some (last r)) s' = c' # X"
          unfolding Cons X_def by (rule sub_word_nonword [OF D(1) hD c'])
        have rhs: "search_from (word_rx w) (Some (last r)) s' =
                     search_from (word_rx w) (Some c') s''"
          unfolding Cons by (rule search_word_nonword [OF w(1) hw c'])
        show ?thesis
        proof (cases "r = D")
          case True
          have "search_from (word_rx w) pv (CHR '' '' # c' # X) =
                  search_from (word_rx w) (Some c') X"
            by (simp only: search_word_nonword [OF w(1) hw blank]
                  search_word_nonword [OF w(1) hw c'])
          then show ?thesis
            using sub srch x rhs IH True ne by (simp add: X_def)
        next
          case False
          have "search_from (word_rx w) pv (r @ c' # X) =
                  (if r = w then Some (Some (last w), c' # X, None)
                   else search_from (word_rx w) (Some (last r)) (c' # X))"
            by (rule search_word_run [OF lr rne rw _ w]) (simp add: c')
          moreover have "search_from (word_rx w) (Some (last r)) (c' # X) =
                  search_from (word_rx w) (Some c') X"
            by (rule search_word_nonword [OF w(1) hw c'])
          ultimately show ?thesis
            using sub srch x rhs IH False by (simp add: X_def)
        qed
      qed
    qed
  qed
qed

lemma re_test_after_re_sub:
  assumes "w \<noteq> []" "\<forall>x\<in>set w. is_word x" "D \<noteq> []" "\<forall>x\<in>set D. is_word x" "w \<noteq> D"
  shows "re_test (word_rx w) (re_sub (word_rx D) '' '' t) = re_test (word_rx w) t"
  using search_after_sub [OF assms, of None t]
  by (simp add: re_test_def re_search_def re_sub_def is_word_opt_def)

section \<open>The digit pass and the word pass\<close>

lemma ms_star_cls_drop:
  "(pv', s', g') \<in> set (ms (Star (Cls p)) (pv, s, g)) \<Longrightarrow>
     \<exists>k\<le>length (takeWhile p s). s' = drop k s"
proof (induction s arbitrary: pv)
  case Nil
  then show ?case by (simp add: ms_star_cls_Nil)
next
  case (Cons c cs)
  show ?case
  proof (cases "p c")
    case False
    with Cons.prems show ?thesis
      by (auto simp: ms_star_cls_Cons simp del: ms.simps(7) intro: exI [of _ 0])
  next
    case True
    with Cons.prems consider "(pv', s', g') \<in> set (ms (Star (Cls p)) (Some c, cs, g))"
      | "s' = c # cs"
      by (auto simp: ms_star_cls_Cons simp del: ms.simps(7))
    then show ?thesis
    proof cases
      case 1
      from Cons.IH [OF 1] obtain k where "k \<le> length (takeWhile p cs)" "s' = drop k cs"
        by blast
      with True show ?thesis by (auto intro: exI [of _ "Suc k"])
    next
      case 2
      then show ?thesis by (auto intro: exI [of _ 0])
    qed
  qed
qed

lemma ms_grp_plus_cls:
  assumes "(pv', s', g') \<in> set (ms (Grp (Plus (Cls p))) (pv, s, g))"
  shows "\<exists>grp. g' = Some grp \<and> grp \<noteq> [] \<and> (\<forall>x\<in>set grp. p x)"
proof -
  from assms obtain pv1 s1 g1 where
    in_plus: "(pv1, s1, g1) \<in> set (ms (Seq (Cls p) (Star (Cls p))) (pv, s, g))"
    and g': "g' = Some (take (length s - length s1) s)"
    by (auto simp: Plus_def simp del: ms.simps(5) ms.simps(7))
  from in_plus obtain c cs where s: "s = c # cs" and pc: "p c"
    and in_star: "(pv1, s1, g1) \<in> set (ms (Star (Cls p)) (Some c, cs, g))"
    by (auto simp del: ms.simps(7) split: list.splits if_splits)
  from ms_star_cls_drop [OF in_star] obtain k where
    k: "k \<le> length (takeWhile p cs)" and s1: "s1 = drop k cs" by blast
  have kl: "k \<le> length cs" using k length_takeWhile_le [of p cs] by linarith
  have len: "length s - length s1 = Suc k" using s s1 kl by simp
  have "take k cs = take k (takeWhile p cs)"
    using k takeWhile_eq_take [of p cs] by (metis min.absorb1 take_take)
  then have "\<forall>x\<in>set (take k cs). p x"
    by (metis in_set_takeD set_takeWhileD)
  then show ?thesis using g' len s pc by simp
qed

lemma first_match_digit_token:
  assumes "first_match digit_token pv s = Some m"
  shows "group1 m \<noteq> [] \<and> (\<forall>x\<in>set (group1 m). is_digit x)"
proof -
  from assms have "m \<in> set (ms digit_token (pv, s, None))"
    by (auto simp: first_match_def split: list.splits)
  then obtain st where st: "st \<in> set (ms (Grp (Plus (Cls is_digit))) (pv, s, None))"
    and m: "m \<in> set (ms Bnd st)"
    by (auto simp: digit_token_def simp del: ms.simps(9) split: if_splits)
  obtain pv1 s1 g1 where steq: "st = (pv1, s1, g1)" by (cases st)
  from m steq have meq: "m = st" by (auto split: if_splits)
  from ms_grp_plus_cls st steq obtain grp where
    "g1 = Some grp" "grp \<noteq> []" "\<forall>x\<in>set grp. is_digit x" by blast
  then show ?thesis using meq steq by (simp add: group1_def)
qed

lemma search_from_first_match:
  "search_from r pv s = Some m \<Longrightarrow> \<exists>pv' s'. first_match r pv' s' = Some m"
proof (induction s arbitrary: pv)
  case Nil
  then show ?case by auto
next
  case (Cons c cs)
  then show ?case by (cases "first_match r pv (c # cs)") auto
qed

lemma re_search_digit_token:
  assumes "re_search digit_token t = Some m"
  shows "group1 m \<noteq> [] \<and> (\<forall>x\<in>set (group1 m). is_digit x)"
proof -
  from assms obtain pv' s' where "first_match digit_token pv' s' = Some m"
    unfolding re_search_def by (blast dest: search_from_first_match)
  then show ?thesis by (rule first_match_digit_token)
qed

lemma digit_pass_cases:
  "snd (digit_pass t) = t \<or>
   (\<exists>D. D \<noteq> [] \<and> (\<forall>x\<in>set D. is_digit x) \<and> snd (digit_pass t) = re_sub (word_rx D) '' '' t)"
proof (cases "re_search digit_token t")
  case None
  then show ?thesis by (simp add: digit_pass_def)
next
  case (Some m)
  from re_search_digit_token [OF Some] show ?thesis
    by (auto simp: digit_pass_def Some split: option.splits)
qed

lemma word_pass_find:
  "fst (word_pass words q c) =
     (case find (\<lambda>(w, v). re_test (word_rx w) c) words of None \<Rightarrow> q | Some (w, v) \<Rightarrow> v)"
  by (induction words) auto

lemma number_words_shape:
  "\<forall>(w, v)\<in>set (if lang = ''es'' then NUMBER_WORDS_ES else NUMBER_WORDS_EN).
      w \<noteq> [] \<and> (\<forall>x\<in>set w. is_word x) \<and> \<not> is_digit (hd w)"
  by (simp add: NUMBER_WORDS_ES_def NUMBER_WORDS_EN_def)

lemma number_word_after_digit_pass:
  assumes "(w, v) \<in> set (if lang = ''es'' then NUMBER_WORDS_ES else NUMBER_WORDS_EN)"
  shows "re_test (word_rx w) (snd (digit_pass t)) = re_test (word_rx w) t"
proof -
  from number_words_shape [of lang] assms
  have w: "w \<noteq> []" "\<forall>x\<in>set w. is_word x" "\<not> is_digit (hd w)" by auto
  from digit_pass_cases [of t] show ?thesis
  proof
    assume "snd (digit_pass t) = t"
    then show ?thesis by simp
  next
    assume "\<exists>D. D \<noteq> [] \<and> (\<forall>x\<in>set D. is_digit x) \<and>
              snd (digit_pass t) = re_sub (word_rx D) '' '' t"
    then obtain D where D: "D \<noteq> []" "\<forall>x\<in>set D. is_digit x"
      and eq: "snd (digit_pass t) = re_sub (word_rx D) '' '' t" by blast
    have Dw: "\<forall>x\<in>set D. is_word x" using D(2) by (blast intro: is_digit_is_word)
    have "is_digit (hd D)" using D by (cases D) auto
    with w(3) have ne: "w \<noteq> D" by auto
    show ?thesis unfolding eq by (rule re_test_after_re_sub [OF w(1,2) D(1) Dw ne])
  qed
qed

lemma extract_quantity_fst:
  "fst (extract_quantity txt lang) =
     fst (word_pass (if lang = ''es'' then NUMBER_WORDS_ES else NUMBER_WORDS_EN)
            (fst (digit_pass (lower txt))) (snd (digit_pass (lower txt))))"
  by (simp add: extract_quantity_def Let_def split: prod.splits)

section \<open>The residual text is in normal form\<close>























section \<open>The examples, evaluated\<close>

lemmas rx_eval =
  re_test_def re_search_def re_sub_def first_match_def word_rx_def words_rx_def ms_lit
  ms_star_cls_Nil ms_star_cls_Cons ms_lazy_cls_Nil ms_lazy_cls_Cons
  at_boundary_def is_word_opt_def Plus_def Opt_def group1_def lower_def strip_def

lemma extract_quantity_buy_3_apples:
  "extract_quantity ''buy 3 apples'' ''en'' = (3, ''buy apples'')"
proof -
  have d: "digit_pass ''buy 3 apples'' = (3, ''buy   apples'')"
    by (simp add: digit_pass_def digit_token_def py_int_def digit_val_def code_def rx_eval
          del: ms.simps(7) ms.simps(8))
  have w: "word_pass NUMBER_WORDS_EN 3 ''buy   apples'' = (3, ''buy   apples'')"
    by (simp add: NUMBER_WORDS_EN_def rx_eval del: ms.simps(7) ms.simps(8))
  have s: "strip (re_sub spaces_rx '' '' ''buy   apples'') = ''buy apples''"
    by (simp add: spaces_rx_def rx_eval del: ms.simps(7) ms.simps(8))
  show ?thesis
    by (simp add: extract_quantity_def lower_def d w s)
qed

lemma detect_intent_dos_manzanas: "detect_intent ''dos manzanas'' ''es'' = ''invalid''"
proof -
  have t: "strip (lower ''dos manzanas'') = ''dos manzanas''"
    by (simp add: rx_eval)
  have 1: "\<not> list_ex (\<lambda>phrase. py_in phrase ''dos manzanas'') stop_phrases"
    by (simp add: stop_phrases_def)
  have 2: "\<not> is_negated_add ''dos manzanas'' ''es''"
    by (simp add: is_negated_add_def negated_add_es_def rx_eval del: ms.simps(7) ms.simps(8))
  have 3: "\<not> has_any ''dos manzanas'' (lex_search LEXICON_ES)"
    by (simp add: has_any_def LEXICON_ES_def rx_eval)
  have 4: "\<not> has_any ''dos manzanas'' (lex_remove LEXICON_ES)"
    by (simp add: has_any_def LEXICON_ES_def rx_eval)
  have 5: "\<not> has_any ''dos manzanas'' (lex_modify LEXICON_ES)"
    by (simp add: has_any_def LEXICON_ES_def rx_eval)
  have 6: "\<not> has_any ''dos manzanas'' (lex_add LEXICON_ES)"
    by (simp add: has_any_def LEXICON_ES_def anade_tilde_def n_tilde_def rx_eval)
  have 7: "\<not> re_test quantity_noun_pattern ''dos manzanas''"
    by (simp add: quantity_noun_pattern_def rx_eval del: ms.simps(7) ms.simps(8))
  show ?thesis
    by (simp add: detect_intent_def Let_def t 1 2 3 4 5 6 7)
qed

lemma extract_item_grab_milk: "extract_item ''grab milk'' ''en'' = ''grab milk''"
proof -
  have 1: "lower (re_sub (Cls (\<lambda>c. \<not> is_kept c)) '' '' ''grab milk'') = ''grab milk''"
    by (simp add: rx_eval)
  have 2: "strip (re_sub spaces_rx '' '' ''grab milk'') = ''grab milk''"
    by (simp add: spaces_rx_def rx_eval del: ms.simps(7) ms.simps(8))
  have 3: "strip (re_sub (Seq Bnd (Seq (Plus (Cls is_digit)) Bnd)) '' '' ''grab milk'')
             = ''grab milk''"
    by (simp add: rx_eval del: ms.simps(7) ms.simps(8))
  have 4: "strip (re_sub (words_rx containers_en) '' '' ''grab milk'') = ''grab milk''"
    by (simp add: containers_en_def rx_eval)
  have 5: "strip (re_sub (words_rx containers_es) '' '' ''grab milk'') = ''grab milk''"
    by (simp add: containers_es_def rx_eval)
  have 6: "strip (re_sub (words_rx [''of'', ''de'']) '' '' ''grab milk'') = ''grab milk''"
    by (simp add: rx_eval)
  have 7: "filter (\<lambda>tok. tok \<noteq> [] \<and> tok \<notin> set stopwords_en) (split_sp ''grab milk'')
             = [''grab'', ''milk'']"
    by (simp add: stopwords_en_def)
  have 8: "strip (join_sp [''grab'', ''milk'']) = ''grab milk''"
    by (simp add: strip_def)
  have stop: "(if ''en'' = ''es'' then stopwords_es else stopwords_en) = stopwords_en"
    by simp
  show ?thesis
    by (simp only: extract_item_def Let_def 1 2 3 4 5 6 stop 7 8)
qed

lemma extract_size_get_500ml_milk: "extract_size ''get 500ml milk'' = ''500ml''"
  by (simp add: extract_size_def SIZE_KEYWORDS_def rx_eval)

lemma detect_intent_two_apples: "detect_intent ''two apples'' ''en'' = ''add''"
proof -
  have t: "strip (lower ''two apples'') = ''two apples''"
    by (simp add: rx_eval)
  have 2: "\<not> is_negated_add ''two apples'' ''en''"
    by (simp add: is_negated_add_def negated_add_en_def rx_eval del: ms.simps(7) ms.simps(8))
  have 3: "\<not> has_any ''two apples'' (lex_search LEXICON_EN)"
    by (simp add: has_any_def LEXICON_EN_def rx_eval)
  have 4: "\<not> has_any ''two apples'' (lex_remove LEXICON_EN)"
    by (simp add: has_any_def LEXICON_EN_def rx_eval)
  have 5: "\<not> has_any ''two apples'' (lex_modify LEXICON_EN)"
    by (simp add: has_any_def LEXICON_EN_def rx_eval)
  have 7: "re_test quantity_noun_pattern ''two apples''"
    by (simp add: quantity_noun_pattern_def rx_eval del: ms.simps(7) ms.simps(8))
  show ?thesis
    by (simp add: detect_intent_def Let_def t stop_phrases_def 2 3 4 5 7)
qed





lemma digit_token_3_two_apples: "re_test digit_token (lower ''3 two apples'')"
  by (simp add: digit_token_def rx_eval del: ms.simps(7) ms.simps(8))

lemma number_word_3_two_apples:
  "find (\<lambda>(w, v). re_test (word_rx w) (lower ''3 two apples'')) NUMBER_WORDS_EN
     = Some (''two'', 2)"
  by (simp add: NUMBER_WORDS_EN_def rx_eval)





section \<open>The entry point returns a well-formed command\<close>


section \<open>Stop phrases\<close>

text \<open>
  Claim C9. When one of the stop phrases how, why, what, make, recipe occurs as a
  substring of the lowered, trimmed text, \<open>detect_intent\<close> answers invalid, whatever the
  language and whatever else the text holds; so "how do I add milk" is invalid.
\<close>

theorem stop_phrase_invalid:
  assumes "phrase \<in> {''how'', ''why'', ''what'', ''make'', ''recipe''}"
    and "sublist phrase (strip (lower txt))"
  shows "detect_intent txt lang = ''invalid''"
proof (rule detect_intent_stop_phrase)
  from assms(1) have "phrase \<in> set stop_phrases" by (simp add: stop_phrases_def)
  with assms(2) show "list_ex (\<lambda>phrase. py_in phrase (strip (lower txt))) stop_phrases"
    unfolding list_ex_iff py_in_sublist by blast
qed

theorem stop_phrase_invalid_witness:
  "''how'' \<in> {''how'', ''why'', ''what'', ''make'', ''recipe''} \<and>
   sublist ''how'' (strip (lower ''how do I add milk'')) \<and>
   detect_intent ''how do I add milk'' ''en'' = ''invalid''"
proof -
  have m: "''how'' \<in> {''how'', ''why'', ''what'', ''make'', ''recipe''}" by simp
  have t: "strip (lower ''how do I add milk'') = ''how do i add milk''"
    by (simp add: strip_def lower_def)
  have "py_in ''how'' ''how do i add milk''" by simp
  then have s: "sublist ''how'' (strip (lower ''how do I add milk''))"
    by (simp only: t py_in_sublist)
  from m s stop_phrase_invalid [OF m s, of "''en''"] show ?thesis by blast
qed

text \<open>
  Claim C10. A text whose lowered form contains show is invalid, because show contains the
  stop phrase how; and whenever the search trigger show would match the lowered, trimmed
  text, the stop phrase has already decided: the trigger never decides an intent.
\<close>

theorem show_is_invalid:
  assumes "sublist ''show'' (lower txt) \<or> re_test (word_rx ''show'') (strip (lower txt))"
  shows "detect_intent txt ''en'' = ''invalid''"
proof -
  have in_strip: "sublist ''show'' (strip (lower txt))"
    using assms
  proof
    assume "sublist ''show'' (lower txt)"
    then show ?thesis by (rule strip_keeps_sublist) simp_all
  next
    assume "re_test (word_rx ''show'') (strip (lower txt))"
    then show ?thesis by (rule re_test_word_sublist)
  qed
  have "sublist ''how'' ''show''"
    unfolding sublist_def by (rule exI [of _ "''s''"], rule exI [of _ "[]"]) simp
  then have "sublist ''how'' (strip (lower txt))"
    using in_strip by (rule sublist_order.order_trans)
  then have "list_ex (\<lambda>phrase. py_in phrase (strip (lower txt))) stop_phrases"
    unfolding list_ex_iff py_in_sublist by (auto simp: stop_phrases_def)
  then show ?thesis by (rule detect_intent_stop_phrase)
qed

theorem show_is_invalid_witness:
  "(sublist ''show'' (lower ''show me milk'') \<or>
      re_test (word_rx ''show'') (strip (lower ''show me milk''))) \<and>
   detect_intent ''show me milk'' ''en'' = ''invalid''"
proof -
  have t: "lower ''show me milk'' = ''show me milk''" by (simp add: lower_def)
  have "py_in ''show'' ''show me milk''" by simp
  then have "sublist ''show'' (lower ''show me milk'')" by (simp only: t py_in_sublist)
  then have h: "sublist ''show'' (lower ''show me milk'') \<or>
      re_test (word_rx ''show'') (strip (lower ''show me milk''))" by (rule disjI1)
  from h show_is_invalid [OF h] show ?thesis by blast
qed

section \<open>The examples of the quantity extractor, the item phrase and the intent\<close>

text \<open>
  Claim C7. \<open>extract_quantity\<close> on "buy 3 apples" in English returns the quantity 3 and
  the residual text "buy apples": the digit token is blanked, and the last step collapses
  every run of whitespace into one blank, so the residual has a single blank between the
  two words.
\<close>

theorem extract_quantity_example:
  "extract_quantity ''buy 3 apples'' ''en'' = (3, ''buy apples'')"
  by (rule extract_quantity_buy_3_apples)

text \<open>The residual is not the text with two blanks.\<close>

theorem extract_quantity_example_two_blanks:
  "extract_quantity ''buy 3 apples'' ''en'' \<noteq> (3, ''buy  apples'')"
  by (simp add: extract_quantity_buy_3_apples)

text \<open>
  Claim C4. The item-phrase extractor is to drop every trigger word of the add, remove,
  modify and search lists. The English add trigger grab is not in the English stop-word
  list: it is a token of "grab milk" and it is still a token of the item phrase
  extracted from it.
\<close>

theorem extract_item_keeps_grab:
  "''grab'' \<in> set (lex_add LEXICON_EN) \<and>
   ''grab'' \<in> set (split_sp ''grab milk'') \<and>
   ''grab'' \<in> set (split_sp (extract_item ''grab milk'' ''en''))"
  by (simp add: extract_item_grab_milk LEXICON_EN_def)

text \<open>
  Claim C5. A text with no stop phrase, no negation and no trigger that starts with a
  number word of the language's table followed by a word is to be an add. The English
  "two apples" is; the Spanish "dos manzanas" is invalid, although dos is in the
  Spanish number-word table: the quantity pattern of \<open>detect_intent\<close> lists the English
  number words only.
\<close>

theorem detect_intent_spanish_number_word:
  "(''dos'', 2) \<in> set NUMBER_WORDS_ES \<and>
   detect_intent ''dos manzanas'' ''es'' = ''invalid'' \<and>
   (''two'', 2) \<in> set NUMBER_WORDS_EN \<and>
   detect_intent ''two apples'' ''en'' = ''add''"
  by (simp add: detect_intent_dos_manzanas detect_intent_two_apples
        NUMBER_WORDS_ES_def NUMBER_WORDS_EN_def)

section \<open>The filters of the command\<close>

text \<open>
  Claim C1. The command is to carry the size that \<open>extract_filters\<close> found. The entry
  point copies the brand and the price of the extracted filters and leaves the size at
  its default: on "get 500ml milk" the filter extractor finds the size 500ml and the
  command's size is empty.
\<close>

theorem parse_voice_command_drops_size:
  "size_f (extract_filters None ''get 500ml milk'') = ''500ml'' \<and>
   (case parse_voice_command openai_off None ''get 500ml milk'' None of
      Inl e \<Rightarrow> False
    | Inr c \<Rightarrow> size_f (filters c) = [])"
proof -
  from parse_voice_command_rule_based [of None "''get 500ml milk''" None] obtain c where
    "parse_voice_command openai_off None ''get 500ml milk'' None = Inr c"
    and "filters c = \<lparr> brand = extract_brand None ''get 500ml milk'',
                         price_max = extract_price_max ''get 500ml milk'', size_f = [] \<rparr>"
    by blast
  then show ?thesis
    by (simp add: extract_filters_def extract_size_get_500ml_milk)
qed

section \<open>The number word after the digit\<close>

text \<open>
  Claim C8. When the lowered text holds a number word of the language's table as a whole
  word, \<open>extract_quantity\<close> returns the value of the first such word in the order of the
  table, whether or not the text also holds a digit token: the digit pass blanks only
  occurrences of its digit token, which leaves every number word where it was, and the
  word pass then sets the quantity without looking at the one the digit pass found.
\<close>

theorem number_word_overrides_digit:
  assumes "find (\<lambda>(w, v). re_test (word_rx w) (lower txt))
             (if lang = ''es'' then NUMBER_WORDS_ES else NUMBER_WORDS_EN) = Some (w, v)"
  shows "fst (extract_quantity txt lang) = v"
proof -
  let ?tbl = "if lang = ''es'' then NUMBER_WORDS_ES else NUMBER_WORDS_EN"
  have "find (\<lambda>(w, v). re_test (word_rx w) (snd (digit_pass (lower txt)))) ?tbl
          = find (\<lambda>(w, v). re_test (word_rx w) (lower txt)) ?tbl"
    by (rule find_cong [OF refl]) (auto simp: number_word_after_digit_pass)
  with assms show ?thesis
    by (simp add: extract_quantity_fst word_pass_find)
qed

text \<open>The text "3 two apples" holds the digit token 3 and the number word two.\<close>

theorem number_word_overrides_digit_witness:
  "re_test digit_token (lower ''3 two apples'') \<and>
   find (\<lambda>(w, v). re_test (word_rx w) (lower ''3 two apples''))
     (if ''en'' = ''es'' then NUMBER_WORDS_ES else NUMBER_WORDS_EN) = Some (''two'', 2) \<and>
   fst (extract_quantity ''3 two apples'' ''en'') = 2"
proof -
  have h: "find (\<lambda>(w, v). re_test (word_rx w) (lower ''3 two apples''))
     (if ''en'' = ''es'' then NUMBER_WORDS_ES else NUMBER_WORDS_EN) = Some (''two'', 2)"
    using number_word_3_two_apples by simp
  from digit_token_3_two_apples h number_word_overrides_digit [OF h] show ?thesis
    by blast
qed

section \<open>Extracting again from the residual text\<close>




section \<open>The price of the command\<close>


end
